theory Spec2Isabelle
  imports Complex_Main "HOL-Library.Log_Nat"
begin

section \<open>Chunked video upload: constants, errors and the retry strategy\<close>

text \<open>
  The development follows the two source files of the uploader: the abstract uploader
  (constants, option types, the default retry strategy, the constructor, the form data,
  the token refresh, the XHR promise and the retrier) and the video uploader (chunk
  planning and the upload loop). JavaScript numbers that hold byte counts, HTTP statuses
  and retry counts are modelled as integers; \<open>Math.ceil\<close> is taken on the real
  quotient, and the retry delay is computed with the rounding of doubles.
  An optional property (\<open>x?: T\<close>) is an \<open>option\<close>; a thrown \<open>Error\<close> is the left
  summand of a result.
\<close>

definition MIN_CHUNK_SIZE :: int where
  "MIN_CHUNK_SIZE = 1024 * 1024 * 5"

definition DEFAULT_CHUNK_SIZE :: int where
  "DEFAULT_CHUNK_SIZE = 1024 * 1024 * 50"

definition MAX_CHUNK_SIZE :: int where
  "MAX_CHUNK_SIZE = 1024 * 1024 * 128"

definition DEFAULT_RETRIES :: int where
  "DEFAULT_RETRIES = 6"

definition DEFAULT_API_HOST :: string where
  "DEFAULT_API_HOST = ''ws.api.video''"

text \<open>
  The errors the constructors and \<open>cancel\<close> throw. Each constructor stands for one
  \<open>throw new Error(message)\<close> of the source (the origin errors carry the \<open>type\<close>
  argument that the message interpolates); \<open>TypeError\<close> is the exception raised by
  calling \<open>abort\<close> on \<open>undefined\<close>.
\<close>

datatype error =
    VideoIdMissing
  | CredentialsMissing
  | FileMissing
  | InvalidChunkSize
  | OriginNameRequired string
  | OriginVersionRequired string
  | InvalidOriginName string
  | InvalidOriginVersion string
  | TypeError


record VideoUploadError =
  status :: "int option"
  error_type :: "string option"
  title :: "string option"
  reason :: "string option"
  raw :: "string option"

type_synonym RetryStrategy = "int \<Rightarrow> VideoUploadError \<Rightarrow> int option"

text \<open>Truthiness of optional strings, numbers and booleans, as \<open>||\<close>, \<open>&&\<close> and \<open>!\<close> read them.\<close>

definition truthy_str :: "string option \<Rightarrow> bool" where
  "truthy_str v = (case v of None \<Rightarrow> False | Some s \<Rightarrow> s \<noteq> [])"

definition truthy_num :: "int option \<Rightarrow> bool" where
  "truthy_num v = (case v of None \<Rightarrow> False | Some n \<Rightarrow> n \<noteq> 0)"

text \<open>
  The strategy computes in IEEE 754 doubles. \<open>to_double\<close> is the double nearest to an
  integer: an integer of at most 53 bits is itself, a longer one is rounded to 53
  significant bits, a tie going to the even neighbour (overflow to infinity, beyond
  \<open>2 ^ 1024\<close>, is left out). Each arithmetic operation of the source rounds its exact
  result this way; \<open>Math.floor\<close> of a double that is an integer is that integer.
\<close>

definition to_double :: "int \<Rightarrow> int" where
  "to_double x =
     (let a = \<bar>x\<bar>; e = bitlen a - 53
      in if e \<le> 0 then x
         else (let q = 2 ^ nat e; d = a div q; r = a mod q;
                   m = (if 2 * r > q \<or> (2 * r = q \<and> odd d) then d + 1 else d)
               in sgn x * (m * q)))"

definition Math_floor :: "int \<Rightarrow> int" where
  "Math_floor x = x"

definition DEFAULT_RETRY_STRATEGY :: "int \<Rightarrow> RetryStrategy" where
  "DEFAULT_RETRY_STRATEGY maxRetries retryCount err =
     (if (case status err of None \<Rightarrow> False | Some s \<Rightarrow> s \<noteq> 0 \<and> s \<ge> 400 \<and> s < 500)
         \<or> retryCount \<ge> maxRetries
      then None
      else Some (Math_floor (to_double (200 +
             to_double (to_double (2000 * retryCount) * to_double (retryCount + 1))))))"

definition str_or :: "string option \<Rightarrow> string \<Rightarrow> string" where
  "str_or v d = (if truthy_str v then the v else d)"

definition num_or :: "int option \<Rightarrow> int \<Rightarrow> int" where
  "num_or v d = (if truthy_num v then the v else d)"

definition Math_ceil :: "real \<Rightarrow> int" where
  "Math_ceil x = \<lceil>x\<rceil>"

section \<open>Options and construction\<close>

record Origin =
  origin_name :: string
  origin_version :: string

record OriginOptions =
  application :: "Origin option"
  sdk :: "Origin option"

record File =
  file_size :: int
  file_name :: string

text \<open>
  The constructor's argument. The three credential interfaces are one record of optional
  properties: \<open>Some\<close> means the object has the property (\<open>hasOwnProperty\<close>), with the
  string it holds.
\<close>

record Options =
  o_apiHost :: "string option"
  o_retries :: "int option"
  o_videoName :: "string option"
  o_retryStrategy :: "RetryStrategy option"
  o_origin :: "OriginOptions option"
  o_testlifyStorageSignedUrl :: "string option"
  o_skipUploadToAPIVideo :: "bool option"
  o_uploadToken :: "string option"
  o_accessToken :: "string option"
  o_refreshToken :: "string option"
  o_apiKey :: "string option"
  o_videoId :: "string option"
  o_file :: "File option"
  o_chunkSize :: "int option"

text \<open>
  The Authorization header value: \<open>Bearer t\<close> is the string \<open>Bearer \<close> followed by
  \<open>t\<close>, and \<open>Basic k\<close> is \<open>Basic \<close> followed by \<open>btoa(k)\<close> (the browser's base64
  encoder is not part of the repository).
\<close>

datatype authorization = Bearer string | Basic string

record Headers =
  Authorization :: "authorization option"
  AV_Origin_Client :: string
  AV_Origin_App :: "string option"
  AV_Origin_Sdk :: "string option"

text \<open>
  The fields of \<open>AbstractUploader\<close>. The observer lists \<open>onProgressCallbacks\<close> and
  \<open>onPlayableCallbacks\<close> are left out (no operation below reads them), and the entry
  of \<open>abortControllers\<close> that belongs to a retried operation is kept in that operation's
  state (\<open>registered\<close>, \<open>aborted\<close>).
\<close>

record AbstractUploader =
  uploadEndpoint :: string
  videoId :: "string option"
  retries :: int
  headers :: Headers
  refreshToken :: "string option"
  apiHost :: string
  retryStrategy :: RetryStrategy
  testlifyStorageSignedUrl :: "string option"
  skipUploadToAPIVideo :: bool

record VideoUploader = AbstractUploader +
  the_file :: File
  chunkSize :: int
  chunksCount :: int
  fileSize :: int
  fileName :: string

definition is_digit :: "char \<Rightarrow> bool" where
  "is_digit c = (48 \<le> (of_char c :: nat) \<and> (of_char c :: nat) \<le> 57)"

definition is_word_char :: "char \<Rightarrow> bool" where
  "is_word_char c =
     (let n = (of_char c :: nat)
      in (48 \<le> n \<and> n \<le> 57) \<or> (65 \<le> n \<and> n \<le> 90) \<or> (97 \<le> n \<and> n \<le> 122) \<or> n = 95)"

text \<open>The regular expression \<open>^[\w-]{1,50}$\<close>.\<close>

definition name_matches :: "string \<Rightarrow> bool" where
  "name_matches s =
     (1 \<le> length s \<and> length s \<le> 50 \<and> list_all (\<lambda>c. is_word_char c \<or> c = CHR ''-'') s)"

text \<open>The pieces of a string between its dots.\<close>

fun split_dots :: "string \<Rightarrow> string list" where
  "split_dots [] = [[]]"
| "split_dots (c # cs) =
     (if c = CHR ''.'' then [] # split_dots cs
      else (case split_dots cs of [] \<Rightarrow> [[c]] | p # ps \<Rightarrow> (c # p) # ps))"

text \<open>The regular expression \<open>^\d{1,3}(\.\d{1,3}(\.\d{1,3})?)?$\<close>.\<close>

definition version_matches :: "string \<Rightarrow> bool" where
  "version_matches s =
     (let ps = split_dots s
      in 1 \<le> length ps \<and> length ps \<le> 3
         \<and> list_all (\<lambda>p. 1 \<le> length p \<and> length p \<le> 3 \<and> list_all is_digit p) ps)"

definition validateOrigin :: "string \<Rightarrow> Origin \<Rightarrow> error + unit" where
  "validateOrigin type origin =
     (if origin_name origin = [] then Inl (OriginNameRequired type)
      else if origin_version origin = [] then Inl (OriginVersionRequired type)
      else if \<not> name_matches (origin_name origin) then Inl (InvalidOriginName type)
      else if \<not> version_matches (origin_version origin) then Inl (InvalidOriginVersion type)
      else Inr ())"

text \<open>
  One branch of \<open>if (options.origin.application)\<close> / \<open>if (options.origin.sdk)\<close>: the
  origin is validated and, when valid, gives the header value \<open>name:version\<close>.
\<close>

definition origin_header :: "string \<Rightarrow> Origin option \<Rightarrow> error + string option" where
  "origin_header type origin =
     (case origin of
        None \<Rightarrow> Inr None
      | Some og \<Rightarrow>
          (case validateOrigin type og of
             Inl e \<Rightarrow> Inl e
           | Inr _ \<Rightarrow> Inr (Some (origin_name og @ '':'' @ origin_version og))))"

text \<open>
  The constructor of \<open>AbstractUploader\<close>, in the order of its statements: the field
  initialisers and the first three assignments (\<open>initial_fields\<close>), the chain of
  credential branches (\<open>set_credentials\<close>), the client header and the retry settings
  (\<open>set_retries\<close>), and the origins (\<open>set_origins\<close>). \<open>pkg\<close> is the build-time
  constant \<open>PACKAGE_VERSION\<close>. Fields that the source leaves unassigned until a later
  statement start at an empty value here.
\<close>

definition initial_fields :: "Options \<Rightarrow> AbstractUploader" where
  "initial_fields options =
     \<lparr>uploadEndpoint = [], videoId = None, retries = 0,
      headers = \<lparr>Authorization = None, AV_Origin_Client = [],
                  AV_Origin_App = None, AV_Origin_Sdk = None\<rparr>,
      refreshToken = None,
      apiHost = str_or (o_apiHost options) DEFAULT_API_HOST,
      retryStrategy = DEFAULT_RETRY_STRATEGY 0,
      testlifyStorageSignedUrl = o_testlifyStorageSignedUrl options,
      skipUploadToAPIVideo =
        (case o_skipUploadToAPIVideo options of None \<Rightarrow> False | Some b \<Rightarrow> b)\<rparr>"

text \<open>
  The branches are tried in the source's order: \<open>uploadToken\<close>, then \<open>accessToken\<close>,
  then \<open>apiKey\<close>, then the bypass flag.
\<close>

definition set_credentials :: "AbstractUploader \<Rightarrow> Options \<Rightarrow> error + AbstractUploader" where
  "set_credentials this options =
     (case o_uploadToken options of
        Some uploadToken \<Rightarrow>
          Inr (this\<lparr>videoId := (if truthy_str (o_videoId options) then o_videoId options
                                  else videoId this),
                    uploadEndpoint := ''https://'' @ apiHost this @ ''/upload?token=''
                                        @ uploadToken\<rparr>)
      | None \<Rightarrow>
          (case o_accessToken options of
             Some accessToken \<Rightarrow>
               if \<not> truthy_str (o_videoId options) then Inl VideoIdMissing
               else Inr (this\<lparr>refreshToken := o_refreshToken options,
                              uploadEndpoint := ''https://'' @ apiHost this @ ''/videos/''
                                 @ the (o_videoId options) @ ''/source'',
                              headers := (headers this)\<lparr>Authorization :=
                                 Some (Bearer accessToken)\<rparr>\<rparr>)
           | None \<Rightarrow>
               (case o_apiKey options of
                  Some apiKey \<Rightarrow>
                    if \<not> truthy_str (o_videoId options) then Inl VideoIdMissing
                    else Inr (this\<lparr>uploadEndpoint := ''https://'' @ apiHost this @ ''/videos/''
                                      @ the (o_videoId options) @ ''/source'',
                                   headers := (headers this)\<lparr>Authorization :=
                                      Some (Basic (apiKey @ '':''))\<rparr>\<rparr>)
                | None \<Rightarrow>
                    if skipUploadToAPIVideo this \<noteq> True then Inl CredentialsMissing
                    else Inr (this\<lparr>uploadEndpoint := []\<rparr>))))"

definition set_retries :: "string \<Rightarrow> AbstractUploader \<Rightarrow> Options \<Rightarrow> AbstractUploader" where
  "set_retries pkg this options =
     (let this1 = this\<lparr>headers := (headers this)\<lparr>AV_Origin_Client :=
                          ''typescript-uploader:'' @ pkg\<rparr>\<rparr>;
          this2 = this1\<lparr>retries := num_or (o_retries options) DEFAULT_RETRIES\<rparr>
      in this2\<lparr>retryStrategy :=
                  (case o_retryStrategy options of
                     Some f \<Rightarrow> f
                   | None \<Rightarrow> DEFAULT_RETRY_STRATEGY (retries this2))\<rparr>)"

definition set_origins :: "AbstractUploader \<Rightarrow> Options \<Rightarrow> error + AbstractUploader" where
  "set_origins this options =
     (case o_origin options of
        None \<Rightarrow> Inr this
      | Some og \<Rightarrow>
          (case origin_header ''application'' (application og) of
             Inl e \<Rightarrow> Inl e
           | Inr app \<Rightarrow>
               (let this1 = (case app of
                               None \<Rightarrow> this
                             | Some h \<Rightarrow> this\<lparr>headers := (headers this)
                                           \<lparr>AV_Origin_App := Some h\<rparr>\<rparr>)
                in case origin_header ''sdk'' (sdk og) of
                     Inl e \<Rightarrow> Inl e
                   | Inr sd \<Rightarrow>
                       Inr (case sd of
                              None \<Rightarrow> this1
                            | Some h \<Rightarrow> this1\<lparr>headers := (headers this1)
                                          \<lparr>AV_Origin_Sdk := Some h\<rparr>\<rparr>))))"

definition AbstractUploader_new :: "string \<Rightarrow> Options \<Rightarrow> error + AbstractUploader" where
  "AbstractUploader_new pkg options =
     (case set_credentials (initial_fields options) options of
        Inl e \<Rightarrow> Inl e
      | Inr this \<Rightarrow> set_origins (set_retries pkg this options) options)"

text \<open>
  \<open>Math.ceil(fileSize / chunkSize)\<close>, which the constructor stores in \<open>chunksCount\<close>
  and \<open>uploadCurrentChunk\<close> computes again for \<open>totalParts\<close>.
\<close>

definition chunk_count :: "int \<Rightarrow> int \<Rightarrow> int" where
  "chunk_count fsize csize = Math_ceil (real_of_int fsize / real_of_int csize)"

text \<open>The constructor of \<open>VideoUploader\<close>: \<open>super(options)\<close> first, then its own checks.\<close>

definition VideoUploader_new :: "string \<Rightarrow> Options \<Rightarrow> error + VideoUploader" where
  "VideoUploader_new pkg options =
     (case AbstractUploader_new pkg options of
        Inl e \<Rightarrow> Inl e
      | Inr base \<Rightarrow>
          (case o_file options of
             None \<Rightarrow> Inl FileMissing
           | Some f \<Rightarrow>
               if truthy_num (o_chunkSize options)
                  \<and> (the (o_chunkSize options) < MIN_CHUNK_SIZE
                       \<or> the (o_chunkSize options) > MAX_CHUNK_SIZE)
               then Inl InvalidChunkSize
               else
                 (let csize = num_or (o_chunkSize options) DEFAULT_CHUNK_SIZE
                  in Inr \<lparr>uploadEndpoint = uploadEndpoint base, videoId = videoId base,
                          retries = retries base, headers = headers base,
                          refreshToken = refreshToken base, apiHost = apiHost base,
                          retryStrategy = retryStrategy base,
                          testlifyStorageSignedUrl = testlifyStorageSignedUrl base,
                          skipUploadToAPIVideo = skipUploadToAPIVideo base,
                          the_file = f, chunkSize = csize,
                          chunksCount = chunk_count (file_size f) csize,
                          fileSize = file_size f, fileName = file_name f\<rparr>)))"

section \<open>Request bodies\<close>

text \<open>
  A blob is known by the byte range \<open>[blob_first, blob_last)\<close> of the file it was
  cut from; the bytes themselves play no role. \<open>slice\<close> is \<open>Blob.slice(start, end)\<close>
  on a file: a negative position counts from the end, positions are clamped to the size,
  and an end before the start gives an empty blob.
\<close>

record Blob =
  blob_first :: int
  blob_last :: int

definition blob_size :: "Blob \<Rightarrow> int" where
  "blob_size b = blob_last b - blob_first b"

definition slice :: "File \<Rightarrow> int \<Rightarrow> int \<Rightarrow> Blob" where
  "slice f startByte endByte =
     (let relativeStart = (if startByte < 0 then max (file_size f + startByte) 0
                           else min startByte (file_size f));
          relativeEnd = (if endByte < 0 then max (file_size f + endByte) 0
                         else min endByte (file_size f));
          span = max (relativeEnd - relativeStart) 0
      in \<lparr>blob_first = relativeStart, blob_last = relativeStart + span\<rparr>)"

record FormData =
  fd_videoId :: "string option"
  fd_file :: Blob
  fd_fileName :: string

definition createFormData ::
  "'a AbstractUploader_scheme \<Rightarrow> File \<Rightarrow> string \<Rightarrow> int \<Rightarrow> int \<Rightarrow> FormData" where
  "createFormData this f name startByte endByte =
     (let chunk = (if startByte \<noteq> 0 \<or> endByte \<noteq> 0 then slice f startByte endByte
                   else \<lparr>blob_first = 0, blob_last = file_size f\<rparr>)
      in \<lparr>fd_videoId = (if truthy_str (videoId this) then videoId this else None),
          fd_file = chunk, fd_fileName = name\<rparr>)"

text \<open>
  The parameters of one request. The progress callback is left out: it only forwards
  progress events to the observers.
\<close>

record HXRRequestParams =
  currentPart :: int
  totalParts :: int
  body :: FormData

section \<open>Responses\<close>

text \<open>
  A finished XMLHttpRequest: its HTTP status, its response text and what
  \<open>JSON.parse\<close> makes of the text (\<open>None\<close> when it throws). Of the parsed object only
  the members that the source reads or that the declared result types name are kept.
\<close>

record Json =
  j_status :: "int option"
  j_type :: "string option"
  j_title :: "string option"
  j_reason :: "string option"
  j_raw :: "string option"
  j_videoId :: "string option"
  j_access_token :: "string option"
  j_refresh_token :: "string option"

record Xhr =
  xhr_status :: int
  xhr_response :: string
  xhr_json :: "Json option"

record VideoUploadResponse =
  res_videoId :: "string option"
  res_title :: "string option"

text \<open>\<open>{status: xhr.status, raw: xhr.response, ...parsedResponse}\<close>: a parsed member wins.\<close>

definition parseErrorResponse :: "Xhr \<Rightarrow> VideoUploadError" where
  "parseErrorResponse xhr =
     (case xhr_json xhr of
        Some j \<Rightarrow>
          \<lparr>status = (case j_status j of Some s \<Rightarrow> Some s | None \<Rightarrow> Some (xhr_status xhr)),
           error_type = j_type j, title = j_title j, reason = j_reason j,
           raw = (case j_raw j of Some r \<Rightarrow> Some r | None \<Rightarrow> Some (xhr_response xhr))\<rparr>
      | None \<Rightarrow>
          \<lparr>status = Some (xhr_status xhr), error_type = None, title = None,
           reason = Some ''UNKWOWN'', raw = Some (xhr_response xhr)\<rparr>)"

definition apiResponseToVideoUploadResponse :: "Json \<Rightarrow> VideoUploadResponse" where
  "apiResponseToVideoUploadResponse response =
     \<lparr>res_videoId = j_videoId response, res_title = j_title response\<rparr>"

text \<open>The errors that \<open>createXhrPromise\<close> builds itself.\<close>

definition transport_error :: "string \<Rightarrow> VideoUploadError" where
  "transport_error r =
     \<lparr>status = None, error_type = None, title = None, reason = Some r, raw = None\<rparr>"

section \<open>The retried request\<close>

text \<open>
  One call of \<open>xhrWithRetrier\<close> is an operation that the browser's events drive. Its
  state holds the retrier's loop variable, what the operation waits for, the settled
  value of the \<open>result\<close> promise of its handle (\<open>None\<close> while it is pending), the state of
  its AbortController (\<open>aborted\<close>) and whether \<open>abortControllers[id]\<close> still holds it
  (\<open>registered\<close>), and the trace of what it has done to the network.

  \<open>io\<close> says what the operation waits for: the response of the upload XHR, the response
  of the refresh XHR, the timer of \<open>sleep\<close>, or nothing. While \<open>result\<close> is \<open>None\<close>
  and \<open>io\<close> is not \<open>Sleeping\<close>, the promise of the current call of \<open>fn\<close> is pending
  and the retrier's loop awaits it.
\<close>

datatype io = UploadInFlight | RefreshInFlight | Sleeping int | Idle

datatype action =
    SendUpload Headers HXRRequestParams
  | SendRefresh "string option"
  | AbortUpload

record Operation =
  params :: HXRRequestParams
  retriesCount :: int
  io :: io
  result :: "(VideoUploadError + VideoUploadResponse) option"
  aborted :: bool
  registered :: bool
  trace :: "action list"

datatype event =
    UploadLoaded Xhr
  | UploadNetworkError
  | UploadTimeout
  | RefreshLoaded Xhr
  | TimerFired
  | Cancel

text \<open>
  \<open>createXhrPromise\<close> up to \<open>xhr.send\<close>: a POST to the upload endpoint with the part
  header and the uploader's current headers. The abort listener it adds is run by
  \<open>abort\<close> below; added to a signal that is already aborted, it never runs.
\<close>

definition createXhrPromise :: "'a AbstractUploader_scheme \<Rightarrow> Operation \<Rightarrow> Operation" where
  "createXhrPromise this op =
     op\<lparr>io := UploadInFlight, trace := trace op @ [SendUpload (headers this) (params op)]\<rparr>"

text \<open>\<open>doRefreshToken\<close> up to \<open>xhr.send\<close>: the stored refresh token is posted.\<close>

definition doRefreshToken :: "'a AbstractUploader_scheme \<Rightarrow> Operation \<Rightarrow> Operation" where
  "doRefreshToken this op =
     op\<lparr>io := RefreshInFlight, trace := trace op @ [SendRefresh (refreshToken this)]\<rparr>"

text \<open>
  The retrier's loop body after \<open>await fn(abortController)\<close>: the \<open>try\<close> branch and
  the \<open>catch\<close> branch. Once \<open>result\<close> is settled the loop has returned, and a later
  settlement of a promise of \<open>fn\<close> reaches nobody.
\<close>

definition fn_resolved :: "VideoUploadResponse \<Rightarrow> Operation \<Rightarrow> Operation" where
  "fn_resolved res op = (if result op \<noteq> None then op else op\<lparr>result := Some (Inr res)\<rparr>)"

definition fn_rejected ::
  "'a AbstractUploader_scheme \<Rightarrow> VideoUploadError \<Rightarrow> Operation \<Rightarrow> Operation" where
  "fn_rejected this e op =
     (if result op \<noteq> None then op
      else if reason e = Some ''ABORTED'' then op\<lparr>result := Some (Inl e)\<rparr>
      else
        (case retryStrategy this (retriesCount op) e of
           None \<Rightarrow> op\<lparr>result := Some (Inl e)\<rparr>
         | Some retryDelay \<Rightarrow> op\<lparr>io := Sleeping retryDelay\<rparr>))"

text \<open>
  \<open>AbortController.abort()\<close>: nothing when the signal is already aborted; otherwise the
  listeners run. Each call of \<open>createXhrPromise\<close> of this operation has added one, which
  aborts its XHR and rejects its promise with reason \<open>ABORTED\<close>. That does something
  only for an XHR in flight and for a promise still pending; during \<open>sleep\<close> every
  promise of \<open>fn\<close> is settled and no XHR is in flight.
\<close>

definition abort :: "'a AbstractUploader_scheme \<Rightarrow> Operation \<Rightarrow> Operation" where
  "abort this op =
     (if aborted op then op
      else
        (let op1 = op\<lparr>aborted := True\<rparr>
         in case io op1 of
              UploadInFlight \<Rightarrow>
                fn_rejected this (transport_error ''ABORTED'')
                  (op1\<lparr>io := Idle, trace := trace op1 @ [AbortUpload]\<rparr>)
            | RefreshInFlight \<Rightarrow> fn_rejected this (transport_error ''ABORTED'') op1
            | Sleeping d \<Rightarrow> op1
            | Idle \<Rightarrow> fn_rejected this (transport_error ''ABORTED'') op1))"

text \<open>
  The \<open>cancel\<close> of the handle: \<open>this.abortControllers[id].abort()\<close>, then the entry is
  deleted. A second call finds \<open>undefined\<close> and throws.
\<close>

definition cancel :: "'a AbstractUploader_scheme \<Rightarrow> Operation \<Rightarrow> error + Operation" where
  "cancel this op =
     (if \<not> registered op then Inl TypeError
      else Inr ((abort this op)\<lparr>registered := False\<rparr>))"

text \<open>
  The \<open>onload\<close> handler of the refresh XHR and what follows it. When the status is 400
  or more, \<open>onreadystatechange\<close> has already rejected the promise, and the later
  \<open>resolve\<close> or \<open>reject\<close> of \<open>onload\<close> changes nothing, but its assignments still
  happen. A resolved refresh continues with \<open>createXhrPromise\<close>, a rejected one rejects
  the promise of \<open>fn\<close>.
\<close>

definition refresh_loaded ::
  "Xhr \<Rightarrow> 'a AbstractUploader_scheme \<Rightarrow> Operation
     \<Rightarrow> 'a AbstractUploader_scheme \<times> Operation" where
  "refresh_loaded xhr this op =
     (let rejected = (xhr_status xhr \<ge> 400);
          failed = fn_rejected this (parseErrorResponse xhr) (op\<lparr>io := Idle\<rparr>)
      in case xhr_json xhr of
           None \<Rightarrow> (this, if rejected then failed else op\<lparr>io := Idle\<rparr>)
         | Some response \<Rightarrow>
             if truthy_str (j_refresh_token response) \<and> truthy_str (j_access_token response)
             then
               (let this1 = this\<lparr>headers := (headers this)\<lparr>Authorization :=
                                   Some (Bearer (the (j_access_token response)))\<rparr>,
                                 refreshToken := j_refresh_token response\<rparr>
                in if rejected then (this1, fn_rejected this1 (parseErrorResponse xhr) (op\<lparr>io := Idle\<rparr>))
                   else (this1, createXhrPromise this1 op))
             else (this, failed))"

text \<open>
  One event of the browser, handled by the operation. An event that the operation does
  not wait for changes nothing. \<open>UploadLoaded\<close> is \<open>onreadystatechange\<close> at
  \<open>readyState 4\<close> followed by \<open>onload\<close>; a response below 400 whose text does not
  parse leaves the promise pending for ever.
\<close>

fun step ::
  "event \<Rightarrow> 'a AbstractUploader_scheme \<times> Operation \<Rightarrow> 'a AbstractUploader_scheme \<times> Operation" where
  "step (UploadLoaded xhr) (this, op) =
     (if io op \<noteq> UploadInFlight then (this, op)
      else if xhr_status xhr = 401 \<and> truthy_str (refreshToken this)
        then (this, doRefreshToken this op)
      else if xhr_status xhr \<ge> 400
        then (this, fn_rejected this (parseErrorResponse xhr) (op\<lparr>io := Idle\<rparr>))
      else
        (case xhr_json xhr of
           None \<Rightarrow> (this, op\<lparr>io := Idle\<rparr>)
         | Some response \<Rightarrow>
             (this, fn_resolved (apiResponseToVideoUploadResponse response) (op\<lparr>io := Idle\<rparr>))))"
| "step UploadNetworkError (this, op) =
     (if io op \<noteq> UploadInFlight then (this, op)
      else (this, fn_rejected this (transport_error ''NETWORK_ERROR'') (op\<lparr>io := Idle\<rparr>)))"
| "step UploadTimeout (this, op) =
     (if io op \<noteq> UploadInFlight then (this, op)
      else (this, fn_rejected this (transport_error ''NETWORK_TIMEOUT'') (op\<lparr>io := Idle\<rparr>)))"
| "step (RefreshLoaded xhr) (this, op) =
     (if io op \<noteq> RefreshInFlight then (this, op) else refresh_loaded xhr this op)"
| "step TimerFired (this, op) =
     (case io op of
        Sleeping d \<Rightarrow> (this, createXhrPromise this (op\<lparr>retriesCount := retriesCount op + 1\<rparr>))
      | _ \<Rightarrow> (this, op))"
| "step Cancel (this, op) =
     (case cancel this op of Inl e \<Rightarrow> (this, op) | Inr op1 \<Rightarrow> (this, op1))"

fun run ::
  "event list \<Rightarrow> 'a AbstractUploader_scheme \<times> Operation \<Rightarrow> 'a AbstractUploader_scheme \<times> Operation" where
  "run [] s = s"
| "run (e # es) s = run es (step e s)"

text \<open>
  \<open>withRetrier\<close> applied to \<open>createXhrPromise\<close>: the controller is registered, and the
  executor of the promise runs at once up to its first \<open>await\<close>, so the first request is
  sent before the handle is returned.
\<close>

definition xhrWithRetrier :: "'a AbstractUploader_scheme \<Rightarrow> HXRRequestParams \<Rightarrow> Operation" where
  "xhrWithRetrier this ps =
     createXhrPromise this
       \<lparr>params = ps, retriesCount = 0, io = Idle, result = None, aborted = False,
        registered = True, trace = []\<rparr>"

section \<open>Chunk planning and the upload loop\<close>

definition firstByte :: "VideoUploader \<Rightarrow> int \<Rightarrow> int" where
  "firstByte this chunkNumber = chunkNumber * chunkSize this"

definition lastByte :: "VideoUploader \<Rightarrow> int \<Rightarrow> int" where
  "lastByte this chunkNumber =
     (let computedLastByte = (chunkNumber + 1) * chunkSize this
      in if computedLastByte > fileSize this then fileSize this else computedLastByte)"

definition uploadCurrentChunk :: "VideoUploader \<Rightarrow> int \<Rightarrow> Operation" where
  "uploadCurrentChunk this chunkNumber =
     xhrWithRetrier this
       \<lparr>currentPart = chunkNumber + 1,
        totalParts = chunk_count (fileSize this) (chunkSize this),
        body = createFormData this (the_file this) (fileName this)
                 (firstByte this chunkNumber) (lastByte this chunkNumber)\<rparr>"


text \<open>
  What \<open>upload\<close> reads from the value it awaits. \<open>uploadCurrentChunk\<close> returns the
  handle \<open>{cancel, result}\<close> of \<open>withRetrier\<close> (the annotation of its return type
  names a promise of a response, and annotations are erased when the code runs). The
  handle is no thenable, so \<open>await\<close> yields the handle itself at once; it has no
  property \<open>videoId\<close>, and reading it gives \<open>undefined\<close>.
\<close>

definition handle_videoId :: "Operation \<Rightarrow> string option" where
  "handle_videoId h = None"

text \<open>
  The loop of \<open>upload\<close>, from chunk \<open>i\<close> on: \<open>res\<close> is the loop's variable (\<open>None\<close>
  while unassigned) and \<open>ops\<close> collects the operations started so far. The result is the
  uploader after the loop, the value \<open>res\<close> that the promise of \<open>upload\<close> resolves to,
  and the operations in the order they were started.
\<close>

function upload_from ::
  "VideoUploader \<Rightarrow> int \<Rightarrow> Operation option \<Rightarrow> Operation list
     \<Rightarrow> VideoUploader \<times> Operation option \<times> Operation list" where
  "upload_from this i res ops =
     (if i < chunksCount this
      then (let h = uploadCurrentChunk this i
            in upload_from (this\<lparr>videoId := handle_videoId h\<rparr>) (i + 1) (Some h) (ops @ [h]))
      else (this, res, ops))"
  by pat_completeness auto
termination
  by (relation "measure (\<lambda>(this, i, res, ops). nat (chunksCount this - i))") auto

declare upload_from.simps [simp del]

definition upload :: "VideoUploader \<Rightarrow> VideoUploader \<times> Operation option \<times> Operation list" where
  "upload this = upload_from this 0 None []"

text \<open>
  The value that a call of \<open>upload\<close> evaluates to. \<open>upload\<close> is an \<open>async\<close> function,
  so the caller receives a promise, which resolves to the value of the \<open>return\<close>
  statement: \<open>res\<close>, \<open>undefined\<close> when the loop never assigned it. \<open>Handle h\<close> is the
  object \<open>{cancel, result}\<close> that \<open>withRetrier\<close> builds for the operation \<open>h\<close>, and
  \<open>Promise v\<close> is a promise that resolves to \<open>v\<close>.
\<close>

datatype js_value = Undefined | Handle Operation | Promise js_value


definition upload_value :: "VideoUploader \<Rightarrow> js_value" where
  "upload_value this =
     Promise (case fst (snd (upload this)) of None \<Rightarrow> Undefined | Some h \<Rightarrow> Handle h)"

section \<open>Sample sessions\<close>

text \<open>Concrete options, files and server responses, used to run the definitions.\<close>

definition MiB :: int where
  "MiB = 1024 * 1024"

definition no_options :: Options where
  "no_options =
     \<lparr>o_apiHost = None, o_retries = None, o_videoName = None, o_retryStrategy = None,
      o_origin = None, o_testlifyStorageSignedUrl = None, o_skipUploadToAPIVideo = None,
      o_uploadToken = None, o_accessToken = None, o_refreshToken = None, o_apiKey = None,
      o_videoId = None, o_file = None, o_chunkSize = None\<rparr>"

definition video_file :: "int \<Rightarrow> File" where
  "video_file n = \<lparr>file_size = n, file_name = ''video.mp4''\<rparr>"

text \<open>An upload token and a file of \<open>n\<close> bytes, cut into chunks of 5 MiB.\<close>

definition token_options :: "int \<Rightarrow> Options" where
  "token_options n =
     no_options\<lparr>o_uploadToken := Some ''tok'', o_file := Some (video_file n),
                o_chunkSize := Some (5 * MiB)\<rparr>"

text \<open>The uploader that the constructor builds from them.\<close>

definition sample_uploader :: "int \<Rightarrow> VideoUploader" where
  "sample_uploader n = projr (VideoUploader_new [] (token_options n))"

text \<open>An access token with a refresh token, a video id and a file of 6 MiB.\<close>

definition access_options :: Options where
  "access_options =
     no_options\<lparr>o_accessToken := Some ''acc'', o_refreshToken := Some ''ref'',
                o_videoId := Some ''vi1'', o_file := Some (video_file (6 * MiB))\<rparr>"

definition access_uploader_sample :: VideoUploader where
  "access_uploader_sample = projr (VideoUploader_new [] access_options)"

definition no_json :: Json where
  "no_json =
     \<lparr>j_status = None, j_type = None, j_title = None, j_reason = None, j_raw = None,
      j_videoId = None, j_access_token = None, j_refresh_token = None\<rparr>"

text \<open>A response with the given status whose body is the empty JSON object.\<close>

definition status_response :: "int \<Rightarrow> Xhr" where
  "status_response st = \<lparr>xhr_status = st, xhr_response = ''{}'', xhr_json = Some no_json\<rparr>"

text \<open>A 201 response that carries a video id.\<close>

definition video_response :: "string \<Rightarrow> Xhr" where
  "video_response v =
     \<lparr>xhr_status = 201, xhr_response = ''{...}'', xhr_json = Some (no_json\<lparr>j_videoId := Some v\<rparr>)\<rparr>"

text \<open>A 200 response of the refresh endpoint with a new pair of tokens.\<close>

definition tokens_response :: "string \<Rightarrow> string \<Rightarrow> Xhr" where
  "tokens_response a r =
     \<lparr>xhr_status = 200, xhr_response = ''{...}'',
      xhr_json = Some (no_json\<lparr>j_access_token := Some a, j_refresh_token := Some r\<rparr>)\<rparr>"

text \<open>Counting the requests of a trace.\<close>

definition is_refresh :: "action \<Rightarrow> bool" where
  "is_refresh a = (case a of SendRefresh t \<Rightarrow> True | _ \<Rightarrow> False)"

definition is_upload :: "action \<Rightarrow> bool" where
  "is_upload a = (case a of SendUpload h p \<Rightarrow> True | _ \<Rightarrow> False)"

definition refreshes :: "Operation \<Rightarrow> nat" where
  "refreshes op = length (filter is_refresh (trace op))"

definition uploads :: "Operation \<Rightarrow> nat" where
  "uploads op = length (filter is_upload (trace op))"

text \<open>
  A run of rounds, each an upload response followed by a refresh response; a round is a
  401 answered by a refresh that succeeds with two non-empty tokens.
\<close>

fun rounds :: "(Xhr \<times> Xhr) list \<Rightarrow> event list" where
  "rounds [] = []"
| "rounds ((u, r) # rs) = UploadLoaded u # RefreshLoaded r # rounds rs"

definition refreshed_round :: "Xhr \<times> Xhr \<Rightarrow> bool" where
  "refreshed_round ur =
     (xhr_status (fst ur) = 401 \<and> xhr_status (snd ur) < 400
      \<and> (case xhr_json (snd ur) of
            None \<Rightarrow> False
          | Some j \<Rightarrow> truthy_str (j_refresh_token j) \<and> truthy_str (j_access_token j)))"

text \<open>The error's HTTP status lies in \<open>[400, 500)\<close>.\<close>

definition client_error :: "VideoUploadError \<Rightarrow> bool" where
  "client_error err = (case status err of None \<Rightarrow> False | Some s \<Rightarrow> 400 \<le> s \<and> s < 500)"

section \<open>Theorems\<close>

subsection \<open>The default retry strategy\<close>

lemma to_double_small:
  assumes "\<bar>x\<bar> < 2 ^ 53"
  shows "to_double x = x"
proof -
  have "floorlog 2 (nat \<bar>x\<bar>) \<le> 53"
    using assms by (intro floorlog_leI) (simp_all add: nat_less_iff)
  then show ?thesis
    by (simp add: to_double_def bitlen_def Let_def)
qed

lemma backoff_exact:
  assumes "0 \<le> n" and "200 + 2000 * n * (n + 1) < 2 ^ 53"
  shows "to_double (200 + to_double (to_double (2000 * n) * to_double (n + 1)))
           = 200 + 2000 * n * (n + 1)"
proof -
  have p: "0 \<le> 2000 * n * (n + 1)" using assms(1) by simp
  have "2000 * n * 1 \<le> 2000 * n * (n + 1)"
    using assms(1) by (intro mult_left_mono) simp_all
  with assms have a: "\<bar>2000 * n\<bar> < 2 ^ 53" by simp
  have "n + 1 \<le> 200 + 2000 * n * (n + 1)"
  proof (cases "n = 0")
    case True
    then show ?thesis by simp
  next
    case False
    with assms(1) have "1 \<le> 2000 * n" by simp
    then have "1 * (n + 1) \<le> 2000 * n * (n + 1)"
      using assms(1) by (intro mult_right_mono) simp_all
    then show ?thesis by simp
  qed
  with assms have b: "\<bar>n + 1\<bar> < 2 ^ 53" by simp
  have c: "\<bar>2000 * n * (n + 1)\<bar> < 2 ^ 53" using assms p by simp
  have d: "\<bar>200 + 2000 * n * (n + 1)\<bar> < 2 ^ 53" using assms p by simp
  show ?thesis
    by (simp only: to_double_small [OF a] to_double_small [OF b] to_double_small [OF c]
        to_double_small [OF d])
qed

text \<open>Beyond 53 bits the delay is rounded: at attempt ten million it ends in 192, not 200.\<close>

lemma bitlen_eqI:
  assumes "2 ^ (w - 1) \<le> x" and "x < 2 ^ w"
  shows "bitlen x = int w"
proof -
  have "floorlog 2 (nat x) \<le> w"
    using assms(2) by (intro floorlog_leI) (simp_all add: nat_less_iff)
  moreover have "w \<le> floorlog 2 (nat x)"
    using assms(1) by (intro floorlog_geI) (simp_all add: le_nat_iff)
  ultimately show ?thesis by (simp add: bitlen_def)
qed

lemma bitlen_58: "bitlen 200000020000000000 = 58" "bitlen 200000020000000200 = 58"
  by (rule bitlen_eqI [of 58, simplified]; simp)+

lemma rounded_values:
  "to_double 200000020000000000 = 200000020000000000"
  "to_double 200000020000000200 = 200000020000000192"
  by (simp_all add: to_double_def bitlen_58 Let_def)

lemma rounded_backoff:
  "DEFAULT_RETRY_STRATEGY 100000000 10000000 (transport_error ''NETWORK_ERROR'')
     = Some 200000020000000192"
  by (simp add: DEFAULT_RETRY_STRATEGY_def transport_error_def Math_floor_def
      to_double_small rounded_values)

lemma default_strategy_exact:
  assumes "0 \<le> n" and "200 + 2000 * n * (n + 1) < 2 ^ 53"
  shows "DEFAULT_RETRY_STRATEGY maxRetries n err =
     (if client_error err then None
      else if n < maxRetries then Some (200 + 2000 * n * (n + 1))
      else None)"
  using backoff_exact [OF assms]
  by (cases "status err")
     (auto simp add: DEFAULT_RETRY_STRATEGY_def client_error_def Math_floor_def)

text \<open>
  C3. The default retry strategy answers \<open>null\<close> for every error whose HTTP status lies
  in \<open>[400, 500)\<close>, whatever the attempt index and the configured maximum are; for any
  other error it answers the delay \<open>200 + 2000 * n * (n + 1)\<close> milliseconds when the
  attempt index \<open>n\<close> is below the maximum, and \<open>null\<close> when \<open>n\<close> has reached it. The
  attempt index is a count \<open>n \<ge> 0\<close> whose delay stays below \<open>2 ^ 53\<close>, where the
  doubles of the source compute the formula without rounding.
\<close>

theorem default_retry_strategy_decision:
  assumes "0 \<le> n" and "200 + 2000 * n * (n + 1) < 2 ^ 53"
  shows "DEFAULT_RETRY_STRATEGY maxRetries n err =
     (if client_error err then None
      else if n < maxRetries then Some (200 + 2000 * n * (n + 1))
      else None)"
  using assms by (rule default_strategy_exact)

theorem default_retry_strategy_decision_witness:
  "(0::int) \<le> 1 \<and> 200 + 2000 * 1 * (1 + 1) < (2::int) ^ 53
   \<and> DEFAULT_RETRY_STRATEGY 6 1 \<lparr>status = Some 503, error_type = None, title = None,
      reason = None, raw = Some []\<rparr> = Some 4200
   \<and> DEFAULT_RETRY_STRATEGY 6 0 \<lparr>status = Some 404, error_type = None, title = None,
      reason = None, raw = Some []\<rparr> = None
   \<and> DEFAULT_RETRY_STRATEGY 6 6 \<lparr>status = None, error_type = None, title = None,
      reason = Some ''NETWORK_ERROR'', raw = None\<rparr> = None"
  using default_retry_strategy_decision [of 1 6 "\<lparr>status = Some 503, error_type = None,
      title = None, reason = None, raw = Some []\<rparr>"]
    default_retry_strategy_decision [of 0 6 "\<lparr>status = Some 404, error_type = None,
      title = None, reason = None, raw = Some []\<rparr>"]
    default_retry_strategy_decision [of 6 6 "\<lparr>status = None, error_type = None,
      title = None, reason = Some ''NETWORK_ERROR'', raw = None\<rparr>"]
  by (simp add: client_error_def)

subsection \<open>Construction of the sample sessions\<close>

lemma chunk_count_div: "chunk_count f c = - ((- f) div c)"
  by (simp add: chunk_count_def Math_ceil_def ceiling_divide_eq_div)

lemmas ctor_defs = VideoUploader_new_def AbstractUploader_new_def initial_fields_def
  set_credentials_def set_retries_def set_origins_def no_options_def
  video_file_def MiB_def str_or_def num_or_def truthy_str_def truthy_num_def
  DEFAULT_API_HOST_def DEFAULT_RETRIES_def MIN_CHUNK_SIZE_def MAX_CHUNK_SIZE_def
  DEFAULT_CHUNK_SIZE_def


lemma token_uploader:
  "VideoUploader_new pkg (token_options n) =
     Inr \<lparr>uploadEndpoint = ''https://ws.api.video/upload?token=tok'', videoId = None,
          retries = 6,
          headers = \<lparr>Authorization = None, AV_Origin_Client = ''typescript-uploader:'' @ pkg,
                      AV_Origin_App = None, AV_Origin_Sdk = None\<rparr>,
          refreshToken = None, apiHost = ''ws.api.video'',
          retryStrategy = DEFAULT_RETRY_STRATEGY 6,
          testlifyStorageSignedUrl = None, skipUploadToAPIVideo = False,
          the_file = video_file n, chunkSize = 5242880,
          chunksCount = chunk_count n 5242880, fileSize = n, fileName = ''video.mp4''\<rparr>"
  by (simp add: ctor_defs token_options_def)

lemma access_uploader:
  "VideoUploader_new pkg access_options =
     Inr \<lparr>uploadEndpoint = ''https://ws.api.video/videos/vi1/source'', videoId = None,
          retries = 6,
          headers = \<lparr>Authorization = Some (Bearer ''acc''),
                      AV_Origin_Client = ''typescript-uploader:'' @ pkg,
                      AV_Origin_App = None, AV_Origin_Sdk = None\<rparr>,
          refreshToken = Some ''ref'', apiHost = ''ws.api.video'',
          retryStrategy = DEFAULT_RETRY_STRATEGY 6,
          testlifyStorageSignedUrl = None, skipUploadToAPIVideo = False,
          the_file = video_file 6291456, chunkSize = 52428800,
          chunksCount = 1, fileSize = 6291456, fileName = ''video.mp4''\<rparr>"
  by (simp add: ctor_defs access_options_def chunk_count_div)


lemma sample_uploader_fields:
  "fileSize (sample_uploader n) = n" "chunkSize (sample_uploader n) = 5242880"
  "chunksCount (sample_uploader n) = chunk_count n 5242880"
  "videoId (sample_uploader n) = None"
  "retryStrategy (sample_uploader n) = DEFAULT_RETRY_STRATEGY 6"
  by (simp_all add: sample_uploader_def token_uploader)

subsection \<open>Chunk planning\<close>




lemma chunk_count_zero: "chunk_count 0 c = 0"
  by (simp add: chunk_count_div)






subsection \<open>The upload loop\<close>

lemma upload_from_done:
  "\<not> i < chunksCount this \<Longrightarrow> upload_from this i res ops = (this, res, ops)"
  by (simp add: upload_from.simps)

lemma upload_from_next:
  "i < chunksCount this \<Longrightarrow>
     upload_from this i res ops =
       upload_from (this\<lparr>videoId := None\<rparr>) (i + 1) (Some (uploadCurrentChunk this i))
         (ops @ [uploadCurrentChunk this i])"
  by (subst upload_from.simps) (simp add: Let_def handle_videoId_def)









lemma empty_file_no_chunks:
  assumes "VideoUploader_new pkg options = Inr this" and "o_file options = Some f"
    and "file_size f = 0"
  shows "chunksCount this = 0 \<and> upload this = (this, None, []) \<and> upload_value this = Promise Undefined"
proof -
  have "chunksCount this = 0"
    using assms
    by (auto simp add: VideoUploader_new_def chunk_count_zero Let_def
        split: sum.splits option.splits if_splits)
  then show ?thesis
    by (simp add: upload_def upload_value_def upload_from_done)
qed

text \<open>
  C2. A file of size 0 is planned as no chunk at all: the loop of \<open>upload\<close> starts no
  operation, no request is sent, and the promise of \<open>upload\<close> resolves to
  \<open>undefined\<close>. The claim asks for one chunk with an empty range and one request with a
  zero-length body.
\<close>

theorem zero_byte_file_uploads_nothing:
  "(case VideoUploader_new [] (token_options 0) of
      Inl e \<Rightarrow> False
    | Inr this \<Rightarrow>
        fileSize this = 0 \<and> chunksCount this = 0 \<and> snd (upload this) = (None, [])
        \<and> upload_value this = Promise Undefined)"
  by (simp add: token_uploader chunk_count_zero upload_def upload_value_def upload_from_done)

lemma two_chunks: "chunk_count 10485760 5242880 = 2"
  by (simp add: chunk_count_div)

lemma upload_from_without_id:
  assumes "upload_from this i res ops = (this1, res1, ops1)" and "videoId this = None"
  shows "videoId this1 = None
     \<and> (\<exists>new. ops1 = ops @ new \<and> (\<forall>h\<in>set new. fd_videoId (body (params h)) = None))"
  using assms
proof (induction this i res ops rule: upload_from.induct)
  case (1 this i res ops)
  show ?case
  proof (cases "i < chunksCount this")
    case False
    with "1.prems" show ?thesis
      by (simp add: upload_from_done)
  next
    case True
    let ?h = "uploadCurrentChunk this i"
    have h: "fd_videoId (body (params ?h)) = None"
      using "1.prems"(2)
      by (simp add: uploadCurrentChunk_def xhrWithRetrier_def createXhrPromise_def
          createFormData_def truthy_str_def)
    have rest: "upload_from (this\<lparr>videoId := handle_videoId ?h\<rparr>) (i + 1) (Some ?h) (ops @ [?h])
        = (this1, res1, ops1)"
      using "1.prems"(1) True by (subst (asm) upload_from.simps) (simp add: Let_def)
    have "videoId (this\<lparr>videoId := handle_videoId ?h\<rparr>) = None"
      by (simp add: handle_videoId_def)
    from "1.IH" [OF True refl rest this] obtain new where
      "videoId this1 = None" "ops1 = (ops @ [?h]) @ new"
      "\<forall>h\<in>set new. fd_videoId (body (params h)) = None"
      by blast
    with h show ?thesis
      by (intro conjI exI [of _ "?h # new"]) simp_all
  qed
qed

text \<open>
  Whatever the uploader and the file are: once the first chunk has been started, the
  uploader stores no video id, and no request after the first carries one.
\<close>

lemma later_chunks_without_video_id:
  assumes "upload this = (this1, res1, ops1)" and "0 < chunksCount this"
  shows "videoId this1 = None
     \<and> (\<forall>k. 0 < k \<and> k < length ops1 \<longrightarrow> fd_videoId (body (params (ops1 ! k))) = None)"
proof -
  let ?h = "uploadCurrentChunk this 0"
  have "upload_from (this\<lparr>videoId := None\<rparr>) (0 + 1) (Some ?h) ([] @ [?h]) = (this1, res1, ops1)"
    using assms by (simp add: upload_def upload_from_next)
  from upload_from_without_id [OF this] obtain new where
    n: "videoId this1 = None" "ops1 = ?h # new"
    "\<forall>h\<in>set new. fd_videoId (body (params h)) = None"
    by auto
  have "fd_videoId (body (params (ops1 ! k))) = None" if "0 < k" "k < length ops1" for k
  proof -
    from that n(2) have "ops1 ! k = new ! (k - 1)" "k - 1 < length new"
      by (simp_all add: nth_Cons')
    with n(3) show ?thesis by simp
  qed
  with n(1) show ?thesis by blast
qed

text \<open>
  C6. A file of 10 MiB in chunks of 5 MiB, uploaded with an upload token. \<open>upload\<close>
  starts both operations without waiting for a response, and after each it assigns the
  property \<open>videoId\<close> of the handle, which is \<open>undefined\<close>, to \<open>this.videoId\<close>. The
  body of the second request carries no \<open>videoId\<close>, and when the first request is
  answered with the video id \<open>vi7\<close> the uploader still stores none.
\<close>

theorem second_chunk_without_video_id:
  "(case VideoUploader_new [] (token_options (10 * MiB)) of
      Inl e \<Rightarrow> False
    | Inr this \<Rightarrow>
        (case upload this of
           (this1, res, ops) \<Rightarrow>
             length ops = 2
             \<and> result (snd (step (UploadLoaded (video_response ''vi7'')) (this1, ops ! 0)))
                 = Some (Inr \<lparr>res_videoId = Some ''vi7'', res_title = None\<rparr>)
             \<and> videoId (fst (step (UploadLoaded (video_response ''vi7'')) (this1, ops ! 0))) = None
             \<and> fd_videoId (body (params (ops ! 1))) = None
             \<and> currentPart (params (ops ! 1)) = 2))"
  by (simp add: token_uploader MiB_def two_chunks upload_def upload_from_next upload_from_done
      uploadCurrentChunk_def xhrWithRetrier_def createXhrPromise_def createFormData_def
      truthy_str_def video_response_def no_json_def fn_resolved_def
      apiResponseToVideoUploadResponse_def)


subsection \<open>Credential checks of the constructor\<close>

lemma origin_header_errors:
  "origin_header t og \<noteq> Inl VideoIdMissing" "origin_header t og \<noteq> Inl CredentialsMissing"
  "origin_header t og \<noteq> Inl InvalidChunkSize" "origin_header t og \<noteq> Inl FileMissing"
  by (auto simp add: origin_header_def validateOrigin_def split: option.splits sum.splits if_splits)

lemma set_origins_errors:
  "set_origins this options \<noteq> Inl VideoIdMissing"
  "set_origins this options \<noteq> Inl CredentialsMissing"
  "set_origins this options \<noteq> Inl InvalidChunkSize"
  "set_origins this options \<noteq> Inl FileMissing"
  using origin_header_errors
  by (auto simp add: set_origins_def Let_def split: option.splits sum.splits)

lemma set_credentials_errors:
  "(set_credentials this options = Inl VideoIdMissing) =
     (o_uploadToken options = None
      \<and> (o_accessToken options \<noteq> None \<or> o_apiKey options \<noteq> None)
      \<and> \<not> truthy_str (o_videoId options))"
  "(set_credentials this options = Inl CredentialsMissing) =
     (o_uploadToken options = None \<and> o_accessToken options = None
      \<and> o_apiKey options = None \<and> \<not> skipUploadToAPIVideo this)"
  "set_credentials this options \<noteq> Inl InvalidChunkSize"
  "set_credentials this options \<noteq> Inl FileMissing"
  by (auto simp add: set_credentials_def split: option.splits)

lemma abstract_new_error:
  "(AbstractUploader_new pkg options = Inl e) =
     (set_credentials (initial_fields options) options = Inl e
      \<or> (\<exists>this. set_credentials (initial_fields options) options = Inr this
            \<and> set_origins (set_retries pkg this options) options = Inl e))"
  by (cases "set_credentials (initial_fields options) options")
     (simp_all add: AbstractUploader_new_def)

lemma skip_initial:
  "skipUploadToAPIVideo (initial_fields options) = (o_skipUploadToAPIVideo options = Some True)"
  by (simp add: initial_fields_def split: option.splits)

lemma abstract_credentials:
  "(AbstractUploader_new pkg options = Inl VideoIdMissing) =
     (o_uploadToken options = None
      \<and> (o_accessToken options \<noteq> None \<or> o_apiKey options \<noteq> None)
      \<and> \<not> truthy_str (o_videoId options))"
  "(AbstractUploader_new pkg options = Inl CredentialsMissing) =
     (o_uploadToken options = None \<and> o_accessToken options = None
      \<and> o_apiKey options = None \<and> o_skipUploadToAPIVideo options \<noteq> Some True)"
  "AbstractUploader_new pkg options \<noteq> Inl InvalidChunkSize"
  "AbstractUploader_new pkg options \<noteq> Inl FileMissing"
  by (simp_all add: abstract_new_error set_credentials_errors set_origins_errors skip_initial)

lemma video_new_error:
  "(VideoUploader_new pkg options = Inl e) =
     (AbstractUploader_new pkg options = Inl e
      \<or> (\<exists>base. AbstractUploader_new pkg options = Inr base
            \<and> (case o_file options of
                  None \<Rightarrow> e = FileMissing
                | Some f \<Rightarrow>
                    e = InvalidChunkSize \<and> truthy_num (o_chunkSize options)
                    \<and> (the (o_chunkSize options) < MIN_CHUNK_SIZE
                         \<or> the (o_chunkSize options) > MAX_CHUNK_SIZE))))"
  by (cases "AbstractUploader_new pkg options"; cases "o_file options")
     (auto simp add: VideoUploader_new_def Let_def)

lemma set_credentials_mode:
  assumes "set_credentials (initial_fields options) options = Inr this"
  shows "(uploadEndpoint this, Authorization (headers this), refreshToken this) =
     (case o_uploadToken options of
        Some t \<Rightarrow>
          (''https://'' @ str_or (o_apiHost options) DEFAULT_API_HOST @ ''/upload?token='' @ t,
           None, None)
      | None \<Rightarrow>
          (case o_accessToken options of
             Some a \<Rightarrow>
               (''https://'' @ str_or (o_apiHost options) DEFAULT_API_HOST @ ''/videos/''
                  @ the (o_videoId options) @ ''/source'',
                Some (Bearer a), o_refreshToken options)
           | None \<Rightarrow>
               (case o_apiKey options of
                  Some k \<Rightarrow>
                    (''https://'' @ str_or (o_apiHost options) DEFAULT_API_HOST @ ''/videos/''
                       @ the (o_videoId options) @ ''/source'',
                     Some (Basic (k @ '':'')), None)
                | None \<Rightarrow> ([], None, None))))"
  using assms
  by (auto simp add: set_credentials_def initial_fields_def split: option.splits if_splits)

lemma set_retries_mode:
  "uploadEndpoint (set_retries pkg this options) = uploadEndpoint this"
  "Authorization (headers (set_retries pkg this options)) = Authorization (headers this)"
  "refreshToken (set_retries pkg this options) = refreshToken this"
  by (simp_all add: set_retries_def Let_def)

lemma set_origins_mode:
  assumes "set_origins this options = Inr this1"
  shows "uploadEndpoint this1 = uploadEndpoint this
     \<and> Authorization (headers this1) = Authorization (headers this)
     \<and> refreshToken this1 = refreshToken this"
  using assms
  by (auto simp add: set_origins_def Let_def split: option.splits sum.splits)

lemma abstract_new_mode:
  assumes "AbstractUploader_new pkg options = Inr this"
  shows "\<exists>this0. set_credentials (initial_fields options) options = Inr this0
     \<and> uploadEndpoint this = uploadEndpoint this0
     \<and> Authorization (headers this) = Authorization (headers this0)
     \<and> refreshToken this = refreshToken this0"
proof -
  from assms obtain this0 where a: "set_credentials (initial_fields options) options = Inr this0"
    and b: "set_origins (set_retries pkg this0 options) options = Inr this"
    by (auto simp add: AbstractUploader_new_def split: sum.splits)
  from set_origins_mode [OF b] a show ?thesis
    by (simp add: set_retries_mode)
qed

lemma video_new_mode:
  assumes "VideoUploader_new pkg options = Inr this"
  shows "(uploadEndpoint this, Authorization (headers this), refreshToken this) =
     (case o_uploadToken options of
        Some t \<Rightarrow>
          (''https://'' @ str_or (o_apiHost options) DEFAULT_API_HOST @ ''/upload?token='' @ t,
           None, None)
      | None \<Rightarrow>
          (case o_accessToken options of
             Some a \<Rightarrow>
               (''https://'' @ str_or (o_apiHost options) DEFAULT_API_HOST @ ''/videos/''
                  @ the (o_videoId options) @ ''/source'',
                Some (Bearer a), o_refreshToken options)
           | None \<Rightarrow>
               (case o_apiKey options of
                  Some k \<Rightarrow>
                    (''https://'' @ str_or (o_apiHost options) DEFAULT_API_HOST @ ''/videos/''
                       @ the (o_videoId options) @ ''/source'',
                     Some (Basic (k @ '':'')), None)
                | None \<Rightarrow> ([], None, None))))"
proof -
  from assms obtain base where b: "AbstractUploader_new pkg options = Inr base"
    and c: "uploadEndpoint this = uploadEndpoint base" "headers this = headers base"
      "refreshToken this = refreshToken base"
    by (auto simp add: VideoUploader_new_def Let_def split: sum.splits option.splits if_splits)
  from abstract_new_mode [OF b] obtain this0 where
    "set_credentials (initial_fields options) options = Inr this0"
    "uploadEndpoint base = uploadEndpoint this0"
    "Authorization (headers base) = Authorization (headers this0)"
    "refreshToken base = refreshToken this0"
    by blast
  with set_credentials_mode [of options this0] c show ?thesis
    by simp
qed

text \<open>
  C7. Construction fails with the error for a missing video id exactly when no upload
  token is supplied and an access token or an API key is supplied without a non-empty
  video id, whatever the bypass flag says; it fails with the error for missing
  credentials exactly when none of upload token, access token and API key is supplied
  and the bypass flag is not set. The credentials are tried in the order upload token,
  access token, API key, and the first one supplied decides the mode of every uploader
  that is built: the upload endpoint, the Authorization header and the stored refresh
  token are those of that mode, whatever other credentials are supplied with it.
\<close>

theorem credential_errors:
  "(VideoUploader_new pkg options = Inl VideoIdMissing) =
     (o_uploadToken options = None
      \<and> (o_accessToken options \<noteq> None \<or> o_apiKey options \<noteq> None)
      \<and> \<not> truthy_str (o_videoId options))
   \<and> (VideoUploader_new pkg options = Inl CredentialsMissing) =
     (o_uploadToken options = None \<and> o_accessToken options = None
      \<and> o_apiKey options = None \<and> o_skipUploadToAPIVideo options \<noteq> Some True)
   \<and> (\<forall>this. VideoUploader_new pkg options = Inr this \<longrightarrow>
        (uploadEndpoint this, Authorization (headers this), refreshToken this) =
          (case o_uploadToken options of
             Some t \<Rightarrow>
               (''https://'' @ str_or (o_apiHost options) DEFAULT_API_HOST
                  @ ''/upload?token='' @ t,
                None, None)
           | None \<Rightarrow>
               (case o_accessToken options of
                  Some a \<Rightarrow>
                    (''https://'' @ str_or (o_apiHost options) DEFAULT_API_HOST @ ''/videos/''
                       @ the (o_videoId options) @ ''/source'',
                     Some (Bearer a), o_refreshToken options)
                | None \<Rightarrow>
                    (case o_apiKey options of
                       Some k \<Rightarrow>
                         (''https://'' @ str_or (o_apiHost options) DEFAULT_API_HOST
                            @ ''/videos/'' @ the (o_videoId options) @ ''/source'',
                          Some (Basic (k @ '':'')), None)
                     | None \<Rightarrow> ([], None, None)))))"
proof (intro conjI allI impI)
  show "(VideoUploader_new pkg options = Inl VideoIdMissing) =
     (o_uploadToken options = None
      \<and> (o_accessToken options \<noteq> None \<or> o_apiKey options \<noteq> None)
      \<and> \<not> truthy_str (o_videoId options))"
    by (simp add: video_new_error abstract_credentials split: option.splits)
  show "(VideoUploader_new pkg options = Inl CredentialsMissing) =
     (o_uploadToken options = None \<and> o_accessToken options = None
      \<and> o_apiKey options = None \<and> o_skipUploadToAPIVideo options \<noteq> Some True)"
    by (simp add: video_new_error abstract_credentials split: option.splits)
qed (rule video_new_mode)

theorem credential_errors_witness:
  "VideoUploader_new [] (access_options\<lparr>o_videoId := None\<rparr>) = Inl VideoIdMissing
   \<and> VideoUploader_new []
        (no_options\<lparr>o_apiKey := Some ''key'', o_skipUploadToAPIVideo := Some True\<rparr>)
       = Inl VideoIdMissing
   \<and> VideoUploader_new [] no_options = Inl CredentialsMissing
   \<and> VideoUploader_new [] (token_options 0) \<noteq> Inl CredentialsMissing
   \<and> VideoUploader_new [] access_options = Inr access_uploader_sample
   \<and> uploadEndpoint access_uploader_sample = ''https://ws.api.video/videos/vi1/source''
   \<and> Authorization (headers access_uploader_sample) = Some (Bearer ''acc'')
   \<and> refreshToken access_uploader_sample = Some ''ref''"
proof -
  have built: "VideoUploader_new [] access_options = Inr access_uploader_sample"
    by (simp add: access_uploader_sample_def access_uploader)
  have opts: "o_uploadToken access_options = None" "o_accessToken access_options = Some ''acc''"
    "o_refreshToken access_options = Some ''ref''" "o_videoId access_options = Some ''vi1''"
    "o_apiHost access_options = None"
    by (simp_all add: access_options_def no_options_def)
  from credential_errors [of "[]" access_options] built
  have "(uploadEndpoint access_uploader_sample, Authorization (headers access_uploader_sample),
      refreshToken access_uploader_sample)
      = (''https://ws.api.video/videos/vi1/source'', Some (Bearer ''acc''), Some ''ref'')"
    by (simp add: opts str_or_def truthy_str_def DEFAULT_API_HOST_def)
  with built show ?thesis
    using credential_errors [of "[]" "access_options\<lparr>o_videoId := None\<rparr>"]
      credential_errors [of "[]" "no_options\<lparr>o_apiKey := Some ''key'', o_skipUploadToAPIVideo := Some True\<rparr>"]
      credential_errors [of "[]" no_options]
      credential_errors [of "[]" "token_options 0"]
    by (simp add: access_options_def no_options_def token_options_def truthy_str_def)
qed

text \<open>
  Against C7 as stated: an upload token together with an access token and a video id
  (two credential shapes at once, no bypass flag) constructs an uploader in upload-token
  mode.
\<close>

theorem two_credential_shapes_accepted:
  "(case VideoUploader_new []
           ((token_options (6 * MiB))\<lparr>o_accessToken := Some ''acc'', o_videoId := Some ''vi1''\<rparr>) of
      Inl e \<Rightarrow> False
    | Inr this \<Rightarrow>
        uploadEndpoint this = ''https://ws.api.video/upload?token=tok''
        \<and> Authorization (headers this) = None \<and> skipUploadToAPIVideo this = False)"
  by (simp add: ctor_defs token_options_def)

subsection \<open>The chunk size\<close>

text \<open>
  C8. Once the credentials and origins are accepted and a file is given, the chunk size
  decides: a supplied chunk size other than 0 that lies below 5 MiB or above 128 MiB
  fails construction; one within the bounds, 5 MiB and 128 MiB included, is used as it
  is; with no chunk size, or with the chunk size 0, the default of 50 MiB is used.
\<close>

theorem chunk_size_check:
  assumes "AbstractUploader_new pkg options = Inr base" and "o_file options = Some f"
  shows "map_sum id chunkSize (VideoUploader_new pkg options) =
           (case o_chunkSize options of
              None \<Rightarrow> Inr DEFAULT_CHUNK_SIZE
            | Some c \<Rightarrow>
                if c = 0 then Inr DEFAULT_CHUNK_SIZE
                else if c < MIN_CHUNK_SIZE \<or> MAX_CHUNK_SIZE < c then Inl InvalidChunkSize
                else Inr c)"
  using assms
  by (auto simp add: VideoUploader_new_def Let_def truthy_num_def num_or_def split: option.splits)

lemma sample_base:
  "AbstractUploader_new [] ((token_options n)\<lparr>o_chunkSize := c\<rparr>) =
     Inr \<lparr>uploadEndpoint = ''https://ws.api.video/upload?token=tok'', videoId = None,
          retries = 6,
          headers = \<lparr>Authorization = None, AV_Origin_Client = ''typescript-uploader:'',
                      AV_Origin_App = None, AV_Origin_Sdk = None\<rparr>,
          refreshToken = None, apiHost = ''ws.api.video'',
          retryStrategy = DEFAULT_RETRY_STRATEGY 6,
          testlifyStorageSignedUrl = None, skipUploadToAPIVideo = False\<rparr>"
  by (simp add: ctor_defs token_options_def)

theorem chunk_size_check_witness:
  "map_sum id chunkSize (VideoUploader_new [] ((token_options 0)\<lparr>o_chunkSize := Some (5 * MiB)\<rparr>))
     = Inr 5242880
   \<and> map_sum id chunkSize (VideoUploader_new [] ((token_options 0)\<lparr>o_chunkSize := Some (128 * MiB)\<rparr>))
     = Inr 134217728
   \<and> map_sum id chunkSize (VideoUploader_new [] ((token_options 0)\<lparr>o_chunkSize := Some (5 * MiB - 1)\<rparr>))
     = Inl InvalidChunkSize
   \<and> map_sum id chunkSize (VideoUploader_new [] ((token_options 0)\<lparr>o_chunkSize := Some (128 * MiB + 1)\<rparr>))
     = Inl InvalidChunkSize
   \<and> map_sum id chunkSize (VideoUploader_new [] ((token_options 0)\<lparr>o_chunkSize := Some (- 1)\<rparr>))
     = Inl InvalidChunkSize
   \<and> map_sum id chunkSize (VideoUploader_new [] ((token_options 0)\<lparr>o_chunkSize := None\<rparr>))
     = Inr 52428800"
proof -
  have f: "o_file ((token_options 0)\<lparr>o_chunkSize := c\<rparr>) = Some (video_file 0)" for c
    by (simp add: token_options_def)
  show ?thesis
    using chunk_size_check [OF sample_base [where n = 0 and c = "Some (5 * MiB)"] f]
      chunk_size_check [OF sample_base [where n = 0 and c = "Some (128 * MiB)"] f]
      chunk_size_check [OF sample_base [where n = 0 and c = "Some (5 * MiB - 1)"] f]
      chunk_size_check [OF sample_base [where n = 0 and c = "Some (128 * MiB + 1)"] f]
      chunk_size_check [OF sample_base [where n = 0 and c = "Some (- 1)"] f]
      chunk_size_check [OF sample_base [where n = 0 and c = None] f]
    by (simp add: MiB_def MIN_CHUNK_SIZE_def MAX_CHUNK_SIZE_def DEFAULT_CHUNK_SIZE_def)
qed

text \<open>
  Against C8 as stated: the chunk size 0 lies outside the bounds, and construction
  succeeds with the default chunk size.
\<close>

theorem chunk_size_zero_accepted:
  "(case VideoUploader_new [] ((token_options (6 * MiB))\<lparr>o_chunkSize := Some 0\<rparr>) of
      Inl e \<Rightarrow> False
    | Inr this \<Rightarrow> chunkSize this = 50 * MiB \<and> chunksCount this = 1)"
  by (simp add: ctor_defs token_options_def chunk_count_div)

subsection \<open>Retries\<close>

lemma set_retries_falsy:
  "set_retries pkg this (options\<lparr>o_retries := Some 0\<rparr>)
     = set_retries pkg this (options\<lparr>o_retries := None\<rparr>)"
  by (simp add: set_retries_def num_or_def truthy_num_def)

lemma stages_ignore_retries:
  "initial_fields (options\<lparr>o_retries := r\<rparr>) = initial_fields options"
  "set_credentials this (options\<lparr>o_retries := r\<rparr>) = set_credentials this options"
  "set_origins this (options\<lparr>o_retries := r\<rparr>) = set_origins this options"
  by (simp_all add: initial_fields_def set_credentials_def set_origins_def
      cong: option.case_cong if_cong sum.case_cong)

lemma abstract_new_falsy:
  "AbstractUploader_new pkg (options\<lparr>o_retries := Some 0\<rparr>)
     = AbstractUploader_new pkg (options\<lparr>o_retries := None\<rparr>)"
  by (simp add: AbstractUploader_new_def stages_ignore_retries set_retries_falsy
      cong: sum.case_cong)

lemma set_origins_keeps:
  "set_origins this options = Inr this1 \<Longrightarrow>
     retries this1 = retries this \<and> retryStrategy this1 = retryStrategy this"
  by (auto simp add: set_origins_def Let_def split: option.splits sum.splits)

lemma abstract_new_retries:
  assumes "AbstractUploader_new pkg options = Inr this"
  shows "retries this = num_or (o_retries options) DEFAULT_RETRIES
     \<and> retryStrategy this =
         (case o_retryStrategy options of
            Some f \<Rightarrow> f
          | None \<Rightarrow> DEFAULT_RETRY_STRATEGY (num_or (o_retries options) DEFAULT_RETRIES))"
proof -
  from assms obtain this0 where
    "set_origins (set_retries pkg this0 options) options = Inr this"
    by (auto simp add: AbstractUploader_new_def split: sum.splits)
  from set_origins_keeps [OF this] show ?thesis
    by (simp add: set_retries_def Let_def split: option.splits)
qed

lemma video_new_retries:
  assumes "VideoUploader_new pkg options = Inr this"
  shows "retries this = num_or (o_retries options) DEFAULT_RETRIES
     \<and> retryStrategy this =
         (case o_retryStrategy options of
            Some f \<Rightarrow> f
          | None \<Rightarrow> DEFAULT_RETRY_STRATEGY (num_or (o_retries options) DEFAULT_RETRIES))"
proof -
  from assms obtain base where b: "AbstractUploader_new pkg options = Inr base"
    and "retries this = retries base" "retryStrategy this = retryStrategy base"
    by (auto simp add: VideoUploader_new_def Let_def split: sum.splits option.splits if_splits)
  with abstract_new_retries [OF b] show ?thesis by simp
qed

text \<open>
  C10. With \<open>retries: 0\<close> the constructor builds exactly what it builds with no
  \<open>retries\<close> at all, so construction succeeds whenever the other options are valid; and
  whenever \<open>retries\<close> is falsy, the uploader's maximum is the default 6, and the default
  retry strategy that it installs is the one for 6 attempts.
\<close>

theorem falsy_retries_give_default:
  "VideoUploader_new pkg (options\<lparr>o_retries := Some 0\<rparr>)
     = VideoUploader_new pkg (options\<lparr>o_retries := None\<rparr>)
   \<and> (\<forall>this. VideoUploader_new pkg options = Inr this \<and> \<not> truthy_num (o_retries options)
        \<longrightarrow> retries this = 6
            \<and> (o_retryStrategy options = None
                 \<longrightarrow> retryStrategy this = DEFAULT_RETRY_STRATEGY 6))"
proof -
  have "VideoUploader_new pkg (options\<lparr>o_retries := Some 0\<rparr>)
     = VideoUploader_new pkg (options\<lparr>o_retries := None\<rparr>)"
    by (simp add: VideoUploader_new_def abstract_new_falsy
        cong: sum.case_cong option.case_cong if_cong)
  moreover have "retries this = 6
            \<and> (o_retryStrategy options = None
                 \<longrightarrow> retryStrategy this = DEFAULT_RETRY_STRATEGY 6)"
    if "VideoUploader_new pkg options = Inr this" "\<not> truthy_num (o_retries options)" for this
    using video_new_retries [OF that(1)] that(2)
    by (simp add: num_or_def DEFAULT_RETRIES_def)
  ultimately show ?thesis by blast
qed

theorem falsy_retries_give_default_witness:
  "(case VideoUploader_new [] ((token_options 0)\<lparr>o_retries := Some 0\<rparr>) of
      Inl e \<Rightarrow> False
    | Inr this \<Rightarrow>
        retries this = 6
        \<and> retryStrategy this 0 (transport_error ''NETWORK_ERROR'') = Some 200
        \<and> retryStrategy this 5 (transport_error ''NETWORK_ERROR'') = Some 60200
        \<and> retryStrategy this 6 (transport_error ''NETWORK_ERROR'') = None)"
proof -
  have eq: "VideoUploader_new [] ((token_options 0)\<lparr>o_retries := Some 0\<rparr>)
      = VideoUploader_new [] (token_options 0)"
    using falsy_retries_give_default [of "[]" "token_options 0"]
    by (simp add: token_options_def no_options_def)
  have opts: "\<not> truthy_num (o_retries (token_options 0))"
    "o_retryStrategy (token_options 0) = None"
    by (simp_all add: token_options_def no_options_def truthy_num_def)
  obtain u where built: "VideoUploader_new [] (token_options 0) = Inr u"
    by (simp add: token_uploader)
  with falsy_retries_give_default [of "[]" "token_options 0"] opts
  have "retries u = 6" "retryStrategy u = DEFAULT_RETRY_STRATEGY 6"
    by blast+
  with eq built show ?thesis
    by (simp add: default_strategy_exact client_error_def transport_error_def)
qed

subsection \<open>What upload returns\<close>





subsection \<open>Refreshing the credentials\<close>

lemma unauthorized_refreshes:
  assumes "io op = UploadInFlight" and "xhr_status u = 401" and "truthy_str (refreshToken this)"
  shows "step (UploadLoaded u) (this, op) =
           (this, op\<lparr>io := RefreshInFlight, trace := trace op @ [SendRefresh (refreshToken this)]\<rparr>)"
  using assms by (simp add: doRefreshToken_def)

lemma refresh_resubmits:
  assumes "io op = RefreshInFlight" and "xhr_status r < 400" and "xhr_json r = Some j"
    and "truthy_str (j_refresh_token j)" and "truthy_str (j_access_token j)"
  shows "step (RefreshLoaded r) (this, op) =
           (this\<lparr>headers := (headers this)\<lparr>Authorization := Some (Bearer (the (j_access_token j)))\<rparr>,
                  refreshToken := j_refresh_token j\<rparr>,
            op\<lparr>io := UploadInFlight,
               trace := trace op @
                 [SendUpload ((headers this)\<lparr>Authorization := Some (Bearer (the (j_access_token j)))\<rparr>)
                    (params op)]\<rparr>)"
  using assms by (simp add: refresh_loaded_def createXhrPromise_def Let_def)

lemma one_round:
  assumes "io op = UploadInFlight" and "truthy_str (refreshToken this)" and "refreshed_round (u, r)"
  defines "s \<equiv> run [UploadLoaded u, RefreshLoaded r] (this, op)"
  shows "io (snd s) = UploadInFlight" and "truthy_str (refreshToken (fst s))"
    and "result (snd s) = result op" and "params (snd s) = params op"
    and "refreshes (snd s) = refreshes op + 1" and "uploads (snd s) = uploads op + 1"
    and "Authorization (headers (fst s)) = Some (Bearer (the (j_access_token (the (xhr_json r)))))"
    and "last (trace (snd s)) = SendUpload (headers (fst s)) (params op)"
proof -
  from assms(3) obtain j where j: "xhr_status u = 401" "xhr_status r < 400" "xhr_json r = Some j"
    "truthy_str (j_refresh_token j)" "truthy_str (j_access_token j)"
    by (auto simp add: refreshed_round_def split: option.splits)
  let ?op = "op\<lparr>io := RefreshInFlight, trace := trace op @ [SendRefresh (refreshToken this)]\<rparr>"
  have a: "step (UploadLoaded u) (this, op) = (this, ?op)"
    using unauthorized_refreshes [OF assms(1) j(1) assms(2)] .
  have b: "io ?op = RefreshInFlight" by simp
  note c = refresh_resubmits [OF b j(2,3,4,5), of this]
  have s: "s = step (RefreshLoaded r) (this, ?op)"
    by (simp only: s_def run.simps a)
  show "io (snd s) = UploadInFlight" and "truthy_str (refreshToken (fst s))"
    and "result (snd s) = result op" and "params (snd s) = params op"
    and "refreshes (snd s) = refreshes op + 1" and "uploads (snd s) = uploads op + 1"
    and "Authorization (headers (fst s)) = Some (Bearer (the (j_access_token (the (xhr_json r)))))"
    and "last (trace (snd s)) = SendUpload (headers (fst s)) (params op)"
    unfolding s c
    by (simp_all add: j refreshes_def uploads_def is_refresh_def is_upload_def)
qed

lemma run_append: "run (es @ fs) s = run fs (run es s)"
  by (induction es arbitrary: s) simp_all

lemma rounds_Cons: "rounds (ur # rs) = [UploadLoaded (fst ur), RefreshLoaded (snd ur)] @ rounds rs"
  by (cases ur) simp

lemma refresh_rounds_run:
  assumes "io op = UploadInFlight" and "truthy_str (refreshToken this)"
    and "list_all refreshed_round rs"
  shows "io (snd (run (rounds rs) (this, op))) = UploadInFlight
     \<and> truthy_str (refreshToken (fst (run (rounds rs) (this, op))))
     \<and> result (snd (run (rounds rs) (this, op))) = result op
     \<and> params (snd (run (rounds rs) (this, op))) = params op
     \<and> refreshes (snd (run (rounds rs) (this, op))) = refreshes op + length rs
     \<and> uploads (snd (run (rounds rs) (this, op))) = uploads op + length rs
     \<and> (rs \<noteq> [] \<longrightarrow>
          Authorization (headers (fst (run (rounds rs) (this, op))))
            = Some (Bearer (the (j_access_token (the (xhr_json (snd (last rs)))))))
          \<and> last (trace (snd (run (rounds rs) (this, op))))
            = SendUpload (headers (fst (run (rounds rs) (this, op)))) (params op))"
  using assms
proof (induction rs arbitrary: this op)
  case Nil
  then show ?case by simp
next
  case (Cons ur rs)
  obtain this1 op1 where s: "run [UploadLoaded (fst ur), RefreshLoaded (snd ur)] (this, op) = (this1, op1)"
    by (cases "run [UploadLoaded (fst ur), RefreshLoaded (snd ur)] (this, op)")
  from Cons.prems have r: "refreshed_round (fst ur, snd ur)" and rs: "list_all refreshed_round rs"
    by simp_all
  note one = one_round [OF Cons.prems(1,2) r, unfolded s fst_conv snd_conv]
  note ih = Cons.IH [OF one(1) one(2) rs]
  have eq: "run (rounds (ur # rs)) (this, op) = run (rounds rs) (this1, op1)"
    by (simp only: rounds_Cons run_append s)
  show ?case
  proof (cases "rs = []")
    case True
    show ?thesis
      unfolding eq using True one by simp
  next
    case False
    show ?thesis
      unfolding eq using False ih one by simp
  qed
qed


lemma trace_fn_rejected: "trace (fn_rejected this e op) = trace op"
  by (simp add: fn_rejected_def split: option.splits)

lemma refresh_answer_trace:
  assumes "io op = RefreshInFlight"
  shows "\<exists>h. trace (snd (step (RefreshLoaded r) (this, op))) =
     (if xhr_status r < 400
         \<and> (case xhr_json r of
               None \<Rightarrow> False
             | Some j \<Rightarrow> truthy_str (j_refresh_token j) \<and> truthy_str (j_access_token j))
      then trace op @ [SendUpload h (params op)]
      else trace op)"
  using assms
  by (cases "xhr_json r")
     (auto simp add: refresh_loaded_def Let_def createXhrPromise_def trace_fn_rejected)

lemma one_refresh_per_unauthorized:
  assumes "io op = UploadInFlight" and "xhr_status u = 401" and "truthy_str (refreshToken this)"
  shows "refreshes (snd (run [UploadLoaded u, RefreshLoaded r] (this, op))) = refreshes op + 1
     \<and> uploads (snd (run [UploadLoaded u, RefreshLoaded r] (this, op)))
         = uploads op + (if refreshed_round (u, r) then 1 else 0)"
proof -
  let ?op = "op\<lparr>io := RefreshInFlight, trace := trace op @ [SendRefresh (refreshToken this)]\<rparr>"
  have a: "step (UploadLoaded u) (this, op) = (this, ?op)"
    using unauthorized_refreshes [OF assms] .
  have b: "io ?op = RefreshInFlight" by simp
  from refresh_answer_trace [OF b, of r this] obtain h where
    t: "trace (snd (step (RefreshLoaded r) (this, ?op))) =
     (if refreshed_round (u, r)
      then trace ?op @ [SendUpload h (params ?op)]
      else trace ?op)"
    using assms(2) by (auto simp add: refreshed_round_def)
  have "run [UploadLoaded u, RefreshLoaded r] (this, op) = step (RefreshLoaded r) (this, ?op)"
    by (simp only: run.simps a)
  with t show ?thesis
    by (simp add: refreshes_def uploads_def is_refresh_def is_upload_def)
qed

lemma refresh_rounds_and_missing_token:
  assumes "io op = UploadInFlight"
  shows "(truthy_str (refreshToken this) \<and> list_all refreshed_round rs \<longrightarrow>
            io (snd (run (rounds rs) (this, op))) = UploadInFlight
            \<and> truthy_str (refreshToken (fst (run (rounds rs) (this, op))))
            \<and> result (snd (run (rounds rs) (this, op))) = result op
            \<and> params (snd (run (rounds rs) (this, op))) = params op
            \<and> refreshes (snd (run (rounds rs) (this, op))) = refreshes op + length rs
            \<and> uploads (snd (run (rounds rs) (this, op))) = uploads op + length rs
            \<and> (rs \<noteq> [] \<longrightarrow>
                 Authorization (headers (fst (run (rounds rs) (this, op))))
                   = Some (Bearer (the (j_access_token (the (xhr_json (snd (last rs)))))))
                 \<and> last (trace (snd (run (rounds rs) (this, op))))
                   = SendUpload (headers (fst (run (rounds rs) (this, op)))) (params op)))
     \<and> (xhr_status u = 401 \<and> \<not> truthy_str (refreshToken this) \<longrightarrow>
            step (UploadLoaded u) (this, op)
              = (this, fn_rejected this (parseErrorResponse u) (op\<lparr>io := Idle\<rparr>))
            \<and> trace (snd (step (UploadLoaded u) (this, op))) = trace op)"
proof (intro conjI impI)
  assume "xhr_status u = 401 \<and> \<not> truthy_str (refreshToken this)"
  then show "step (UploadLoaded u) (this, op)
      = (this, fn_rejected this (parseErrorResponse u) (op\<lparr>io := Idle\<rparr>))"
    using assms by simp
  then show "trace (snd (step (UploadLoaded u) (this, op))) = trace op"
    by (simp add: trace_fn_rejected)
next
  assume "truthy_str (refreshToken this) \<and> list_all refreshed_round rs"
  then have t: "truthy_str (refreshToken this)" and rs: "list_all refreshed_round rs"
    by simp_all
  from refresh_rounds_run [OF assms t rs]
  show "io (snd (run (rounds rs) (this, op))) = UploadInFlight"
    and "truthy_str (refreshToken (fst (run (rounds rs) (this, op))))"
    and "result (snd (run (rounds rs) (this, op))) = result op"
    and "params (snd (run (rounds rs) (this, op))) = params op"
    and "refreshes (snd (run (rounds rs) (this, op))) = refreshes op + length rs"
    and "uploads (snd (run (rounds rs) (this, op))) = uploads op + length rs"
    by simp_all
  assume "rs \<noteq> []"
  with refresh_rounds_run [OF assms t rs]
  show "Authorization (headers (fst (run (rounds rs) (this, op))))
                   = Some (Bearer (the (j_access_token (the (xhr_json (snd (last rs)))))))"
    and "last (trace (snd (run (rounds rs) (this, op))))
                   = SendUpload (headers (fst (run (rounds rs) (this, op)))) (params op)"
    by simp_all
qed

text \<open>
  C4. While a refresh token is stored, every 401 on the upload request is answered by
  exactly one refresh call and nothing else; whatever the refresh endpoint answers, no
  further refresh call follows that answer, and the request is resubmitted, once and
  with the new Authorization header, exactly when the refresh succeeds. The resubmission
  is handled by the same routine: after any number of such rounds the operation again
  waits for an upload response with its result still open, having made one refresh call
  and one resubmission per round, so a further 401 starts a further round. A 401 that
  arrives when no refresh token is stored makes no refresh call and no resubmission, and
  rejects the request with the parsed error.
\<close>

theorem unauthorized_refresh_rounds:
  assumes "io op = UploadInFlight"
  shows "(truthy_str (refreshToken this) \<and> list_all refreshed_round rs \<longrightarrow>
            io (snd (run (rounds rs) (this, op))) = UploadInFlight
            \<and> truthy_str (refreshToken (fst (run (rounds rs) (this, op))))
            \<and> result (snd (run (rounds rs) (this, op))) = result op
            \<and> params (snd (run (rounds rs) (this, op))) = params op
            \<and> refreshes (snd (run (rounds rs) (this, op))) = refreshes op + length rs
            \<and> uploads (snd (run (rounds rs) (this, op))) = uploads op + length rs
            \<and> (rs \<noteq> [] \<longrightarrow>
                 Authorization (headers (fst (run (rounds rs) (this, op))))
                   = Some (Bearer (the (j_access_token (the (xhr_json (snd (last rs)))))))
                 \<and> last (trace (snd (run (rounds rs) (this, op))))
                   = SendUpload (headers (fst (run (rounds rs) (this, op)))) (params op)))
     \<and> (xhr_status u = 401 \<and> \<not> truthy_str (refreshToken this) \<longrightarrow>
            step (UploadLoaded u) (this, op)
              = (this, fn_rejected this (parseErrorResponse u) (op\<lparr>io := Idle\<rparr>))
            \<and> trace (snd (step (UploadLoaded u) (this, op))) = trace op)
     \<and> (xhr_status u = 401 \<and> truthy_str (refreshToken this) \<longrightarrow>
            step (UploadLoaded u) (this, op)
              = (this, op\<lparr>io := RefreshInFlight,
                             trace := trace op @ [SendRefresh (refreshToken this)]\<rparr>)
            \<and> (\<forall>r. refreshes (snd (run [UploadLoaded u, RefreshLoaded r] (this, op)))
                       = refreshes op + 1
                     \<and> uploads (snd (run [UploadLoaded u, RefreshLoaded r] (this, op)))
                       = uploads op + (if refreshed_round (u, r) then 1 else 0)))"
  using refresh_rounds_and_missing_token [OF assms, of this rs u]
    unauthorized_refreshes [OF assms, of u this]
    one_refresh_per_unauthorized [OF assms, of u this]
  by blast

lemma access_sample_fields:
  "refreshToken access_uploader_sample = Some ''ref''"
  "headers access_uploader_sample =
     \<lparr>Authorization = Some (Bearer ''acc''), AV_Origin_Client = ''typescript-uploader:'',
      AV_Origin_App = None, AV_Origin_Sdk = None\<rparr>"
  "retryStrategy access_uploader_sample = DEFAULT_RETRY_STRATEGY 6"
  "videoId access_uploader_sample = None"
  "fileSize access_uploader_sample = 6291456" "chunkSize access_uploader_sample = 52428800"
  by (simp_all add: access_uploader_sample_def access_uploader)

lemma first_operation:
  "io (uploadCurrentChunk this i) = UploadInFlight"
  "result (uploadCurrentChunk this i) = None"
  "retriesCount (uploadCurrentChunk this i) = 0"
  "registered (uploadCurrentChunk this i)" "\<not> aborted (uploadCurrentChunk this i)"
  "trace (uploadCurrentChunk this i) = [SendUpload (headers this) (params (uploadCurrentChunk this i))]"
  by (simp_all add: uploadCurrentChunk_def xhrWithRetrier_def createXhrPromise_def)

theorem unauthorized_refresh_rounds_witness:
  "io (uploadCurrentChunk access_uploader_sample 0) = UploadInFlight
   \<and> truthy_str (refreshToken access_uploader_sample)
   \<and> list_all refreshed_round [(status_response 401, tokens_response ''acc2'' ''ref2'')]
   \<and> refreshes (snd (run (rounds [(status_response 401, tokens_response ''acc2'' ''ref2'')])
        (access_uploader_sample, uploadCurrentChunk access_uploader_sample 0))) = 1
   \<and> uploads (snd (run (rounds [(status_response 401, tokens_response ''acc2'' ''ref2'')])
        (access_uploader_sample, uploadCurrentChunk access_uploader_sample 0))) = 2
   \<and> Authorization (headers (fst (run (rounds [(status_response 401, tokens_response ''acc2'' ''ref2'')])
        (access_uploader_sample, uploadCurrentChunk access_uploader_sample 0)))) = Some (Bearer ''acc2'')
   \<and> xhr_status (status_response 401) = 401
   \<and> \<not> truthy_str (refreshToken (sample_uploader 6291456))
   \<and> trace (snd (step (UploadLoaded (status_response 401))
        (sample_uploader 6291456, uploadCurrentChunk (sample_uploader 6291456) 0)))
       = trace (uploadCurrentChunk (sample_uploader 6291456) 0)"
proof -
  have h: "io (uploadCurrentChunk access_uploader_sample 0) = UploadInFlight"
    "io (uploadCurrentChunk (sample_uploader 6291456) 0) = UploadInFlight"
    by (simp_all add: first_operation)
  have t: "truthy_str (refreshToken access_uploader_sample)"
    "\<not> truthy_str (refreshToken (sample_uploader 6291456))"
    by (simp_all add: access_sample_fields sample_uploader_def token_uploader truthy_str_def)
  have rs: "list_all refreshed_round [(status_response 401, tokens_response ''acc2'' ''ref2'')]"
    by (simp add: refreshed_round_def status_response_def tokens_response_def no_json_def
        truthy_str_def)
  have u: "xhr_status (status_response 401) = 401"
    by (simp add: status_response_def)
  have n: "refreshes (uploadCurrentChunk access_uploader_sample 0) = 0"
    "uploads (uploadCurrentChunk access_uploader_sample 0) = 1"
    by (simp_all add: refreshes_def uploads_def first_operation is_refresh_def is_upload_def)
  have a: "the (j_access_token (the (xhr_json (tokens_response ''acc2'' ''ref2'')))) = ''acc2''"
    by (simp add: tokens_response_def no_json_def)
  let ?rs = "[(status_response 401, tokens_response ''acc2'' ''ref2'')]"
  let ?s = "run (rounds ?rs) (access_uploader_sample, uploadCurrentChunk access_uploader_sample 0)"
  from unauthorized_refresh_rounds [OF h(1), of access_uploader_sample ?rs "status_response 401"]
    t(1) rs
  have "refreshes (snd ?s) = refreshes (uploadCurrentChunk access_uploader_sample 0) + length ?rs"
    and "uploads (snd ?s) = uploads (uploadCurrentChunk access_uploader_sample 0) + length ?rs"
    and "Authorization (headers (fst ?s))
      = Some (Bearer (the (j_access_token (the (xhr_json (snd (last ?rs)))))))"
    by blast+
  then have r: "refreshes (snd ?s) = 1" "uploads (snd ?s) = 2"
    "Authorization (headers (fst ?s)) = Some (Bearer ''acc2'')"
    by (simp_all add: n a del: run.simps rounds.simps step.simps)
  from unauthorized_refresh_rounds [OF h(2), of "sample_uploader 6291456" "[]" "status_response 401"]
    t(2) u
  have "trace (snd (step (UploadLoaded (status_response 401))
        (sample_uploader 6291456, uploadCurrentChunk (sample_uploader 6291456) 0)))
       = trace (uploadCurrentChunk (sample_uploader 6291456) 0)"
    by blast
  with r h(1) t rs u show ?thesis
    by (simp only: simp_thms)
qed


text \<open>
  Against C4 as stated: in access-token mode with a refresh token, the resubmission
  after the first refresh is answered with 401 again. The error is not surfaced: the
  result stays open and a second refresh call is under way.
\<close>

theorem second_unauthorized_refreshes_again:
  "result (snd (run [UploadLoaded (status_response 401),
                     RefreshLoaded (tokens_response ''acc2'' ''ref2''),
                     UploadLoaded (status_response 401)]
        (access_uploader_sample, uploadCurrentChunk access_uploader_sample 0))) = None
   \<and> io (snd (run [UploadLoaded (status_response 401),
                     RefreshLoaded (tokens_response ''acc2'' ''ref2''),
                     UploadLoaded (status_response 401)]
        (access_uploader_sample, uploadCurrentChunk access_uploader_sample 0))) = RefreshInFlight
   \<and> refreshes (snd (run [UploadLoaded (status_response 401),
                     RefreshLoaded (tokens_response ''acc2'' ''ref2''),
                     UploadLoaded (status_response 401)]
        (access_uploader_sample, uploadCurrentChunk access_uploader_sample 0))) = 2"
  by (simp add: first_operation access_sample_fields status_response_def tokens_response_def
      no_json_def truthy_str_def doRefreshToken_def refresh_loaded_def createXhrPromise_def
      refreshes_def is_refresh_def)

subsection \<open>Cancelling during the backoff\<close>

lemma cancel_while_sleeping:
  assumes "io op = Sleeping d" and "registered op" and "\<not> aborted op"
  shows "step Cancel (this, op) = (this, op\<lparr>aborted := True, registered := False\<rparr>)"
  using assms by (simp add: cancel_def abort_def)

lemma timer_sends_again:
  assumes "io op = Sleeping d"
  shows "uploads (snd (step TimerFired (this, op))) = uploads op + 1
     \<and> io (snd (step TimerFired (this, op))) = UploadInFlight"
  using assms by (simp add: createXhrPromise_def uploads_def is_upload_def)

text \<open>
  C5. The first chunk of a file of 6 MiB, with the default strategy. Its request is
  answered with 503, and the retrier sleeps for 200 ms. \<open>cancel\<close> during the sleep aborts the
  controller and deletes it, and nothing else: the operation still sleeps and its result
  is still open. When the timer fires, the retrier sends the request again, after the
  cancellation; the new request cannot be aborted, a second \<open>cancel\<close> throws, and the
  201 that answers the request resolves the result, which the claim says is
  \<open>ABORTED\<close>.
\<close>

theorem cancel_during_backoff_does_not_stop:
  "io (snd (run [UploadLoaded (status_response 503)]
        (sample_uploader 6291456, uploadCurrentChunk (sample_uploader 6291456) 0))) = Sleeping 200
   \<and> io (snd (run [UploadLoaded (status_response 503), Cancel]
        (sample_uploader 6291456, uploadCurrentChunk (sample_uploader 6291456) 0))) = Sleeping 200
   \<and> aborted (snd (run [UploadLoaded (status_response 503), Cancel]
        (sample_uploader 6291456, uploadCurrentChunk (sample_uploader 6291456) 0)))
   \<and> result (snd (run [UploadLoaded (status_response 503), Cancel]
        (sample_uploader 6291456, uploadCurrentChunk (sample_uploader 6291456) 0))) = None
   \<and> uploads (snd (run [UploadLoaded (status_response 503), Cancel]
        (sample_uploader 6291456, uploadCurrentChunk (sample_uploader 6291456) 0))) = 1
   \<and> uploads (snd (run [UploadLoaded (status_response 503), Cancel, TimerFired]
        (sample_uploader 6291456, uploadCurrentChunk (sample_uploader 6291456) 0))) = 2
   \<and> cancel (sample_uploader 6291456)
        (snd (run [UploadLoaded (status_response 503), Cancel, TimerFired]
          (sample_uploader 6291456, uploadCurrentChunk (sample_uploader 6291456) 0)))
       = Inl TypeError
   \<and> result (snd (run [UploadLoaded (status_response 503), Cancel, TimerFired,
                       UploadLoaded (video_response ''vi7'')]
        (sample_uploader 6291456, uploadCurrentChunk (sample_uploader 6291456) 0)))
       = Some (Inr \<lparr>res_videoId = Some ''vi7'', res_title = None\<rparr>)"
  by (simp add: first_operation sample_uploader_fields sample_uploader_def token_uploader
      status_response_def video_response_def no_json_def truthy_str_def
      fn_rejected_def fn_resolved_def parseErrorResponse_def default_strategy_exact client_error_def
      cancel_def abort_def createXhrPromise_def uploads_def is_upload_def
      apiResponseToVideoUploadResponse_def)

text \<open>
  The sibling path: \<open>cancel\<close> while the request is in flight aborts the XHR and settles
  the result as \<open>ABORTED\<close>, and no later event sends anything.
\<close>

lemma cancel_in_flight_aborts:
  "result (snd (run [Cancel]
        (sample_uploader 6291456, uploadCurrentChunk (sample_uploader 6291456) 0)))
     = Some (Inl (transport_error ''ABORTED''))
   \<and> trace (snd (run [Cancel, TimerFired, UploadLoaded (video_response ''vi7'')]
        (sample_uploader 6291456, uploadCurrentChunk (sample_uploader 6291456) 0)))
     = trace (uploadCurrentChunk (sample_uploader 6291456) 0) @ [AbortUpload]"
  by (simp add: first_operation sample_uploader_fields cancel_def abort_def fn_rejected_def
      transport_error_def)

end
